theory Spec2Isabelle
  imports Complex_Main "HOL-Library.Word"
begin

section \<open>Python exceptions\<close>

text \<open>
  The exceptions that the two scripts raise themselves or receive from a library call.
  \<open>except Exception\<close> catches every exception class except the ones that derive from
  \<open>BaseException\<close> only; \<open>sys.exit(n)\<close> raises \<open>SystemExit n\<close>.
\<close>

datatype exn =
    SyntaxError
  | RuntimeError
  | TypeError
  | ValueError
  | KeyError
  | StopIteration
  | FileNotFoundError
  | FileExistsError
  | UnidentifiedImageError
  | LibraryError string
  | KeyboardInterrupt
  | SystemExit int

fun is_Exception :: "exn \<Rightarrow> bool" where
  "is_Exception KeyboardInterrupt = False"
| "is_Exception (SystemExit n) = False"
| "is_Exception e = True"

text \<open>
  The exit status of the interpreter: 0 after a normal return of the script, the argument
  of \<open>sys.exit\<close>, and 1 after any other exception that nobody caught.
\<close>

fun exit_status :: "exn + unit \<Rightarrow> int" where
  "exit_status (Inr u) = 0"
| "exit_status (Inl (SystemExit n)) = n"
| "exit_status (Inl e) = 1"

section \<open>convert\_pth2coreml\_new.py\<close>

subsection \<open>The import block of lines 26 to 28\<close>

text \<open>
  The tokens Python's tokenizer produces for an import statement. Line breaks inside
  parentheses are not tokens.
\<close>

datatype token =
    NAME string
  | FROM | IMPORT | AS
  | DOT | COMMA | STAR | SLASH | LPAR | RPAR

text \<open>
  Python's grammar of \<open>from ... import ...\<close>:
  \<^verbatim>\<open>
  import_from:          'from' ('.' | '...')* dotted_name 'import' import_from_targets
  import_from_targets:  '(' import_from_as_names [','] ')' | import_from_as_names !',' | '*'
  import_from_as_names: ','.import_from_as_name+
  import_from_as_name:  NAME ['as' NAME]
  dotted_name:          NAME ('.' NAME)*
  \<close>
  Each recogniser returns the tokens that follow what it has read, and \<open>None\<close> where
  the parser reports a syntax error.
\<close>

fun dotted_name_rest :: "token list \<Rightarrow> token list" where
  "dotted_name_rest (DOT # NAME n # ts) = dotted_name_rest ts"
| "dotted_name_rest ts = ts"

definition dotted_name :: "token list \<Rightarrow> token list option" where
  "dotted_name ts =
     (case ts of
        NAME n # r \<Rightarrow> Some (dotted_name_rest r)
      | _ \<Rightarrow> None)"

definition import_from_as_name :: "token list \<Rightarrow> token list option" where
  "import_from_as_name ts =
     (case ts of
        NAME n # AS # r \<Rightarrow> (case r of NAME m # r' \<Rightarrow> Some r' | _ \<Rightarrow> None)
      | NAME n # r \<Rightarrow> Some r
      | _ \<Rightarrow> None)"

text \<open>
  The names after the first one: as long as a comma and a further name follow, they are
  read; a comma that no name follows is left for the caller.
\<close>

fun import_from_as_names_rest :: "token list \<Rightarrow> token list" where
  "import_from_as_names_rest [] = []"
| "import_from_as_names_rest (t # ts) =
     (if t = COMMA then
        (case ts of
           NAME n # AS # NAME m # r \<Rightarrow> import_from_as_names_rest r
         | NAME n # AS # r \<Rightarrow> t # ts
         | NAME n # r \<Rightarrow> import_from_as_names_rest r
         | _ \<Rightarrow> t # ts)
      else t # ts)"

definition import_from_as_names :: "token list \<Rightarrow> token list option" where
  "import_from_as_names ts =
     (case import_from_as_name ts of
        None \<Rightarrow> None
      | Some r \<Rightarrow> Some (import_from_as_names_rest r))"

definition import_from_targets :: "token list \<Rightarrow> bool" where
  "import_from_targets ts =
     (case ts of
        LPAR # r \<Rightarrow>
          (case import_from_as_names r of
             None \<Rightarrow> False
           | Some r' \<Rightarrow> r' = [RPAR] \<or> r' = [COMMA, RPAR])
      | [STAR] \<Rightarrow> True
      | _ \<Rightarrow> import_from_as_names ts = Some [])"

fun skip_dots :: "token list \<Rightarrow> token list" where
  "skip_dots [] = []"
| "skip_dots (t # ts) = (if t = DOT then skip_dots ts else t # ts)"

definition import_from :: "token list \<Rightarrow> bool" where
  "import_from ts =
     (case ts of
        FROM # r \<Rightarrow>
          (case dotted_name (skip_dots r) of
             Some (IMPORT # r') \<Rightarrow> import_from_targets r'
           | _ \<Rightarrow> False)
      | _ \<Rightarrow> False)"

text \<open>Line 23: \<open>from basicsr.archs.rrdbnet_arch import RRDBNet\<close>.\<close>

definition import_line_23 :: "token list" where
  "import_line_23 =
     [FROM, NAME ''basicsr'', DOT, NAME ''archs'', DOT, NAME ''rrdbnet_arch'',
      IMPORT, NAME ''RRDBNet'']"

text \<open>Line 24: \<open>from coremltools.models.neural_network import quantization_utils\<close>.\<close>

definition import_line_24 :: "token list" where
  "import_line_24 =
     [FROM, NAME ''coremltools'', DOT, NAME ''models'', DOT, NAME ''neural_network'',
      IMPORT, NAME ''quantization_utils'']"

text \<open>
  Lines 26 to 28:
  \<^verbatim>\<open>
  from coremltools.models.neural_network.quantization_utils import (
      /
  )
  \<close>
\<close>

definition import_lines_26_28 :: "token list" where
  "import_lines_26_28 =
     [FROM, NAME ''coremltools'', DOT, NAME ''models'', DOT, NAME ''neural_network'',
      DOT, NAME ''quantization_utils'', IMPORT, LPAR, SLASH, RPAR]"

text \<open>
  The interpreter compiles the whole file before it runs its first statement, and raises
  \<open>SyntaxError\<close> when a statement does not parse. The \<open>from\<close> imports are the statements
  of the module that are modelled at the level of tokens.
\<close>

definition module_import_froms :: "token list list" where
  "module_import_froms = [import_line_23, import_line_24, import_lines_26_28]"

definition compile_module :: "token list list \<Rightarrow> exn + unit" where
  "compile_module stmts = (if list_all import_from stmts then Inr () else Inl SyntaxError)"

subsection \<open>Tensors and the wrapped model\<close>

text \<open>
  The value of a floating point element: not-a-number, the two infinities, or a finite
  number. The finite numbers are real numbers; the rounding of the 32-bit format is not
  modelled.
\<close>

datatype f32 = NaN | NegInf | PosInf | Finite real

text \<open>A tensor is its shape and its elements in row-major order.\<close>

record tensor =
  dims :: "nat list"
  elems :: "f32 list"

text \<open>A network's forward pass; a library call, which may raise.\<close>

type_synonym network = "tensor \<Rightarrow> exn + tensor"

text \<open>
  \<open>torch.clamp(t, lo, hi)\<close>: elementwise \<open>min(max(v, lo), hi)\<close>. Every comparison with
  NaN is false, and \<open>torch.clamp\<close> leaves a NaN element as it is.
\<close>

fun clamp_elem :: "real \<Rightarrow> real \<Rightarrow> f32 \<Rightarrow> f32" where
  "clamp_elem lo hi NaN = NaN"
| "clamp_elem lo hi NegInf = Finite (min lo hi)"
| "clamp_elem lo hi PosInf = Finite hi"
| "clamp_elem lo hi (Finite v) = Finite (min (max v lo) hi)"

definition torch_clamp :: "tensor \<Rightarrow> real \<Rightarrow> real \<Rightarrow> tensor" where
  "torch_clamp t lo hi = t\<lparr>elems := map (clamp_elem lo hi) (elems t)\<rparr>"

text \<open>
  \<open>t * c\<close> for a Python float \<open>c\<close>: NaN stays NaN, an infinity keeps or changes its
  sign with the sign of \<open>c\<close>, and infinity times zero is NaN.
\<close>

fun mul_elem :: "real \<Rightarrow> f32 \<Rightarrow> f32" where
  "mul_elem c NaN = NaN"
| "mul_elem c PosInf = (if 0 < c then PosInf else if c < 0 then NegInf else NaN)"
| "mul_elem c NegInf = (if 0 < c then NegInf else if c < 0 then PosInf else NaN)"
| "mul_elem c (Finite v) = Finite (v * c)"

definition tensor_mul :: "tensor \<Rightarrow> real \<Rightarrow> tensor" where
  "tensor_mul t c = t\<lparr>elems := map (mul_elem c) (elems t)\<rparr>"

text \<open>An element lies in the closed range from \<open>lo\<close> to \<open>hi\<close>; NaN lies in no range.\<close>

fun in_range :: "real \<Rightarrow> real \<Rightarrow> f32 \<Rightarrow> bool" where
  "in_range lo hi (Finite v) = (lo \<le> v \<and> v \<le> hi)"
| "in_range lo hi v = False"

text \<open>
  \<open>ClampedModel.forward\<close> (lines 41 to 58):
  \<^verbatim>\<open>
  out = self.base_model(x)
  return torch.clamp(out, 0.0, 1.0) * 255.0
  \<close>
\<close>

definition forward :: "network \<Rightarrow> tensor \<Rightarrow> exn + tensor" where
  "forward base_model x =
     (case base_model x of
        Inl e \<Rightarrow> Inl e
      | Inr out \<Rightarrow> Inr (tensor_mul (torch_clamp out 0 1) 255))"

subsection \<open>Checkpoints and \<open>load_rrdbnet\<close>\<close>

text \<open>
  A state dictionary is a list of named tensors; a checkpoint is the dictionary that
  \<open>torch.load\<close> returns, from top-level keys to state dictionaries.
\<close>

type_synonym state_dict = "(string \<times> tensor) list"

type_synonym checkpoint = "string \<rightharpoonup> state_dict"

text \<open>The command line of the converter, as \<open>argparse\<close> returns it (lines 81 to 107).\<close>

datatype target = Mac | Ios

record conv_args =
  pth :: string
  out_path :: string
  float16 :: bool
  target :: target
  min_dim :: int
  max_dim :: int
  trace_size :: int

text \<open>
  The descriptions handed to coremltools: \<open>ct.RangeDim\<close>, the dimensions of a
  \<open>ct.Shape\<close>, \<open>ct.ImageType\<close>, and the keyword arguments of \<open>ct.convert\<close>.
\<close>

record range_dim =
  lower_bound :: int
  upper_bound :: int

datatype dim = Fixed int | RangeDim range_dim

datatype colorlayout = BGR | RGB

record image_type =
  name :: string
  shape :: "dim list option"
  color_layout :: colorlayout
  bias :: "real list option"
  scale :: real

datatype precision = FLOAT16 | FLOAT32

datatype deployment_target = macOS14 | iOS17

datatype compute_unit = ComputeUnit_ALL

record conversion_options =
  source :: string
  inputs :: "image_type list"
  outputs :: "image_type list"
  convert_to :: string
  minimum_deployment_target :: deployment_target
  compute_precision :: precision
  compute_units :: compute_unit

text \<open>
  What the conversion library returns is kept symbolic: the model \<open>ct.convert\<close> made of
  a traced network under given options, and the model \<open>quantize_weights\<close> made of
  another one with a number of bits.
\<close>

datatype mlmodel =
    Converted network conversion_options
  | Quantized mlmodel nat

text \<open>
  The libraries are black boxes. Whether a call raises, and what \<open>torch.load\<close>,
  \<open>load_state_dict\<close> and \<open>torch.rand\<close> return, are parameters of the model.
\<close>

record lib =
  torch_load :: "string \<Rightarrow> exn + checkpoint"
  load_state_dict :: "state_dict \<Rightarrow> exn + network"
  ct_ImageType_fails :: "image_type \<Rightarrow> exn option"
  torch_rand :: "int list \<Rightarrow> exn + tensor"
  jit_trace_fails :: "tensor \<Rightarrow> exn option"
  ct_convert_fails :: "conversion_options \<Rightarrow> exn option"
  quantize_weights_fails :: "mlmodel \<Rightarrow> nat \<Rightarrow> exn option"
  save_fails :: "mlmodel \<Rightarrow> string \<Rightarrow> exn option"

text \<open>
  Lines 70 to 75, the \<open>for\<close> loop with its \<open>else\<close>:
  \<^verbatim>\<open>
  for key in ("params_ema", "params"):
      if key in ckpt:
          model.load_state_dict(ckpt[key], strict=True)
          break
  else:
      raise RuntimeError(...)
  \<close>
  \<open>find_params\<close> returns the state dictionary of the first key that the checkpoint has,
  and \<open>None\<close> when the loop ends without a \<open>break\<close>.
\<close>

fun find_params :: "checkpoint \<Rightarrow> string list \<Rightarrow> state_dict option" where
  "find_params ckpt [] = None"
| "find_params ckpt (key # keys) =
     (case ckpt key of
        Some sd \<Rightarrow> Some sd
      | None \<Rightarrow> find_params ckpt keys)"

text \<open>\<open>load_rrdbnet\<close> (lines 61 to 77).\<close>

definition load_rrdbnet :: "lib \<Rightarrow> string \<Rightarrow> exn + network" where
  "load_rrdbnet L pth_path =
     (case torch_load L pth_path of
        Inl e \<Rightarrow> Inl e
      | Inr ckpt \<Rightarrow>
          (case find_params ckpt [''params_ema'', ''params''] of
             None \<Rightarrow> Inl RuntimeError
           | Some sd \<Rightarrow> load_state_dict L sd))"

subsection \<open>The converter's \<open>main\<close>\<close>

text \<open>
  What a run of the converter does to the outside: the lines it prints, the library
  calls that trace, convert, quantize and save, and the packages on disk.
\<close>

datatype conv_msg =
    InfoInput
  | InfoOutput
  | InfoInputShape int int
  | DebugTypeOfMlmodel
  | DebugValueOfMlmodel
  | InfoFP16
  | SavingModelTo string
  | ConversionComplete
  | ConversionError exn
  | Traceback exn

datatype conv_event =
    Print conv_msg
  | PrintStderr conv_msg
  | CallTrace
  | CallConvert conversion_options
  | CallQuantize nat
  | CallSave string

record conv_world =
  packages :: "string \<rightharpoonup> mlmodel"
  conv_events :: "conv_event list"

definition emit :: "conv_event list \<Rightarrow> conv_world \<Rightarrow> conv_world" where
  "emit es w = w\<lparr>conv_events := conv_events w @ es\<rparr>"

text \<open>Lines 115 to 128 and 130 to 133.\<close>

definition input_desc :: "conv_args \<Rightarrow> image_type" where
  "input_desc args =
     \<lparr>name = ''input_image'',
      shape = Some [Fixed 1, Fixed 3,
                    RangeDim \<lparr>lower_bound = min_dim args, upper_bound = max_dim args\<rparr>,
                    RangeDim \<lparr>lower_bound = min_dim args, upper_bound = max_dim args\<rparr>],
      color_layout = BGR,
      bias = Some [0, 0, 0],
      scale = 1 / 255\<rparr>"

definition output_desc :: image_type where
  "output_desc =
     \<lparr>name = ''output_image'', shape = None, color_layout = BGR, bias = None, scale = 1\<rparr>"

text \<open>Lines 136 to 146.\<close>

definition target_map :: "target \<Rightarrow> deployment_target" where
  "target_map t = (case t of Mac \<Rightarrow> macOS14 | Ios \<Rightarrow> iOS17)"

definition conversion_options_of :: "conv_args \<Rightarrow> conversion_options" where
  "conversion_options_of args =
     \<lparr>source = ''pytorch'',
      inputs = [input_desc args],
      outputs = [output_desc],
      convert_to = ''mlprogram'',
      minimum_deployment_target = target_map (target args),
      compute_precision = (if float16 args then FLOAT16 else FLOAT32),
      compute_units = ComputeUnit_ALL\<rparr>"

text \<open>
  Lines 168 to 176: the optional quantization, then the save. The package is on disk
  only after \<open>mlmodel.save\<close> has returned.
\<close>

definition quantize_and_save ::
  "lib \<Rightarrow> conv_args \<Rightarrow> mlmodel \<Rightarrow> conv_world \<Rightarrow> (exn + unit) \<times> conv_world" where
  "quantize_and_save L args m w =
     (let save = (\<lambda>m' w'.
            let w1 = emit [Print (SavingModelTo (out_path args)), CallSave (out_path args)] w'
            in (case save_fails L m' (out_path args) of
                  Some e \<Rightarrow> (Inl e, w1)
                | None \<Rightarrow>
                    (Inr (), emit [Print ConversionComplete]
                               (w1\<lparr>packages := (packages w1)(out_path args \<mapsto> m')\<rparr>))))
      in if float16 args then
           (let w1 = emit [Print InfoFP16, CallQuantize 16] w
            in (case quantize_weights_fails L m 16 of
                  Some e \<Rightarrow> (Inl e, w1)
                | None \<Rightarrow> save (Quantized m 16) w1))
         else save m w)"

text \<open>Lines 149 to 165: the trace with a random input, then the conversion.\<close>

definition trace_and_convert ::
  "lib \<Rightarrow> conv_args \<Rightarrow> network \<Rightarrow> conv_world \<Rightarrow> (exn + mlmodel) \<times> conv_world" where
  "trace_and_convert L args model w =
     (case torch_rand L [1, 3, trace_size args, trace_size args] of
        Inl e \<Rightarrow> (Inl e, w)
      | Inr example_input \<Rightarrow>
          (let w1 = emit [CallTrace] w
           in (case model example_input of
                 Inl e \<Rightarrow> (Inl e, w1)
               | Inr y \<Rightarrow>
                   (case jit_trace_fails L example_input of
                      Some e \<Rightarrow> (Inl e, w1)
                    | None \<Rightarrow>
                        (let opts = conversion_options_of args;
                             w2 = emit [Print InfoInput, Print InfoOutput,
                                        Print (InfoInputShape (min_dim args) (max_dim args)),
                                        CallConvert opts] w1
                         in (case ct_convert_fails L opts of
                               Some e \<Rightarrow> (Inl e, w2)
                             | None \<Rightarrow>
                                 (Inr (Converted model opts),
                                  emit [Print DebugTypeOfMlmodel,
                                        Print DebugValueOfMlmodel] w2)))))))"

text \<open>The body of the \<open>try\<close> statement (lines 110 to 176).\<close>

definition try_body :: "lib \<Rightarrow> conv_args \<Rightarrow> conv_world \<Rightarrow> (exn + unit) \<times> conv_world" where
  "try_body L args w =
     (case load_rrdbnet L (pth args) of
        Inl e \<Rightarrow> (Inl e, w)
      | Inr base_model \<Rightarrow>
          (let model = forward base_model
           in (case ct_ImageType_fails L (input_desc args) of
                 Some e \<Rightarrow> (Inl e, w)
               | None \<Rightarrow>
                   (case ct_ImageType_fails L output_desc of
                      Some e \<Rightarrow> (Inl e, w)
                    | None \<Rightarrow>
                        (case trace_and_convert L args model w of
                           (Inl e, w1) \<Rightarrow> (Inl e, w1)
                         | (Inr m, w1) \<Rightarrow> quantize_and_save L args m w1)))))"

text \<open>
  The converter's \<open>main\<close> (lines 80 to 182): \<open>except Exception\<close> prints the error and the traceback
  to the error stream and calls \<open>sys.exit(1)\<close>.
\<close>

definition convert_main :: "lib \<Rightarrow> conv_args \<Rightarrow> conv_world \<Rightarrow> (exn + unit) \<times> conv_world" where
  "convert_main L args w =
     (case try_body L args w of
        (Inr u, w1) \<Rightarrow> (Inr u, w1)
      | (Inl e, w1) \<Rightarrow>
          (if is_Exception e
           then (Inl (SystemExit 1), emit [PrintStderr (ConversionError e), PrintStderr (Traceback e)] w1)
           else (Inl e, w1)))"

text \<open>
  Running the script: the file is compiled first, and \<open>main\<close> is called (line 186) only
  when that has succeeded.
\<close>

definition convert_pth2coreml_new ::
  "lib \<Rightarrow> conv_args \<Rightarrow> conv_world \<Rightarrow> (exn + unit) \<times> conv_world" where
  "convert_pth2coreml_new L args w =
     (case compile_module module_import_froms of
        Inl e \<Rightarrow> (Inl e, w)
      | Inr u \<Rightarrow> convert_main L args w)"

section \<open>quick\_sr.py\<close>

subsection \<open>Images and arrays\<close>

text \<open>
  A PIL image: its mode, its size and its samples, row by row with the bands of a pixel
  next to each other. The modes are the 8-bit ones with 1 to 4 bands and the 32-bit
  floating point mode \<open>F\<close>.
\<close>

datatype mode = ModeL | ModeLA | ModeRGB | ModeRGBA | ModeF

record pil_image =
  mode :: mode
  width :: nat
  height :: nat
  pixels :: "real list"

text \<open>A numpy array: element type, shape and the elements in row-major order.\<close>

datatype dtype = UInt8 | Float32 | Float64

record ndarray =
  dtype :: dtype
  np_shape :: "nat list"
  data :: "real list"

record uint8_array =
  u8_shape :: "nat list"
  u8_data :: "8 word list"

text \<open>\<open>np.array(img)\<close> of a PIL image: shape (H, W) for one band, (H, W, bands) otherwise.\<close>

definition np_array :: "pil_image \<Rightarrow> ndarray" where
  "np_array img =
     \<lparr>dtype = (case mode img of ModeF \<Rightarrow> Float32 | _ \<Rightarrow> UInt8),
      np_shape = (case mode img of
                    ModeL \<Rightarrow> [height img, width img]
                  | ModeF \<Rightarrow> [height img, width img]
                  | ModeLA \<Rightarrow> [height img, width img, 2]
                  | ModeRGB \<Rightarrow> [height img, width img, 3]
                  | ModeRGBA \<Rightarrow> [height img, width img, 4]),
      data = pixels img\<rparr>"

text \<open>\<open>np.issubdtype(dt, np.floating)\<close>.\<close>

definition is_floating :: "dtype \<Rightarrow> bool" where
  "is_floating dt = (case dt of UInt8 \<Rightarrow> False | _ \<Rightarrow> True)"

text \<open>
  The reductions \<open>max()\<close>, \<open>min()\<close> and \<open>mean()\<close>. On an array without elements
  the first two raise \<open>ValueError\<close>.
\<close>

definition np_max :: "real list \<Rightarrow> exn + real" where
  "np_max xs = (case xs of [] \<Rightarrow> Inl ValueError | x # r \<Rightarrow> Inr (fold max r x))"

definition np_min :: "real list \<Rightarrow> exn + real" where
  "np_min xs = (case xs of [] \<Rightarrow> Inl ValueError | x # r \<Rightarrow> Inr (fold min r x))"

definition np_mean :: "real list \<Rightarrow> real" where
  "np_mean xs = sum_list xs / real (length xs)"

text \<open>\<open>np.clip(v, lo, hi)\<close> is \<open>minimum(maximum(v, lo), hi)\<close>.\<close>

definition np_clip :: "real \<Rightarrow> real \<Rightarrow> real \<Rightarrow> real" where
  "np_clip v lo hi = min (max v lo) hi"

text \<open>
  \<open>astype(np.uint8)\<close> of a floating point value: the fraction is cut off (rounding
  towards zero) and the integer is stored in 8 bits.
\<close>

definition astype_uint8 :: "real \<Rightarrow> 8 word" where
  "astype_uint8 v = word_of_int (if v < 0 then \<lceil>v\<rceil> else \<lfloor>v\<rfloor>)"

text \<open>
  Lines 132 to 136:
  \<^verbatim>\<open>
  img = np.array(out)
  if img.max() <= 1.0:
      img = (img * 255.0).clip(0, 255).astype(np.uint8)
  else:
      img = np.clip(img, 0, 255).astype(np.uint8)
  \<close>
\<close>

definition to_uint8 :: "ndarray \<Rightarrow> exn + uint8_array" where
  "to_uint8 img =
     (case np_max (data img) of
        Inl e \<Rightarrow> Inl e
      | Inr m \<Rightarrow>
          (if m \<le> 1
           then Inr \<lparr>u8_shape = np_shape img,
                     u8_data = map (\<lambda>v. astype_uint8 (np_clip (v * 255) 0 255)) (data img)\<rparr>
           else Inr \<lparr>u8_shape = np_shape img,
                     u8_data = map (\<lambda>v. astype_uint8 (np_clip v 0 255)) (data img)\<rparr>))"

text \<open>
  The image the specification describes for the same step: the clipped values are
  rounded (numpy rounds a tie to the even neighbour) before they are stored in 8 bits.
\<close>

definition np_round :: "real \<Rightarrow> int" where
  "np_round x =
     (let f = \<lfloor>x\<rfloor>; d = x - of_int f
      in if d < 1 / 2 then f else if 1 / 2 < d then f + 1 else if even f then f else f + 1)"

definition spec_to_uint8 :: "ndarray \<Rightarrow> exn + uint8_array" where
  "spec_to_uint8 img =
     (case np_max (data img) of
        Inl e \<Rightarrow> Inl e
      | Inr m \<Rightarrow>
          (if m \<le> 1
           then Inr \<lparr>u8_shape = np_shape img,
                     u8_data = map (\<lambda>v. word_of_int (np_round (np_clip (v * 255) 0 255))) (data img)\<rparr>
           else Inr \<lparr>u8_shape = np_shape img,
                     u8_data = map (\<lambda>v. word_of_int (np_round (np_clip v 0 255))) (data img)\<rparr>))"

text \<open>
  \<open>Image.fromarray\<close> of an 8-bit array: the shape decides the mode, and a shape that
  is no image raises \<open>TypeError\<close>.
\<close>

definition fromarray :: "uint8_array \<Rightarrow> exn + pil_image" where
  "fromarray a =
     (case u8_shape a of
        [h, w] \<Rightarrow>
          Inr \<lparr>mode = ModeL, width = w, height = h, pixels = map (\<lambda>b. real (unat b)) (u8_data a)\<rparr>
      | [h, w, c] \<Rightarrow>
          (if c = 2 then
             Inr \<lparr>mode = ModeLA, width = w, height = h, pixels = map (\<lambda>b. real (unat b)) (u8_data a)\<rparr>
           else if c = 3 then
             Inr \<lparr>mode = ModeRGB, width = w, height = h, pixels = map (\<lambda>b. real (unat b)) (u8_data a)\<rparr>
           else if c = 4 then
             Inr \<lparr>mode = ModeRGBA, width = w, height = h, pixels = map (\<lambda>b. real (unat b)) (u8_data a)\<rparr>
           else Inl TypeError)
      | _ \<Rightarrow> Inl TypeError)"

text \<open>\<open>img.convert("RGB")\<close>: three 8-bit bands, of the same size as the image.\<close>

fun gray_to_rgb :: "real list \<Rightarrow> real list" where
  "gray_to_rgb [] = []"
| "gray_to_rgb (v # vs) = v # v # v # gray_to_rgb vs"

fun la_to_rgb :: "real list \<Rightarrow> real list" where
  "la_to_rgb (l # a # vs) = l # l # l # la_to_rgb vs"
| "la_to_rgb vs = []"

fun rgba_to_rgb :: "real list \<Rightarrow> real list" where
  "rgba_to_rgb (r # g # b # a # vs) = r # g # b # rgba_to_rgb vs"
| "rgba_to_rgb vs = []"

definition convert_RGB :: "pil_image \<Rightarrow> pil_image" where
  "convert_RGB img =
     img\<lparr>mode := ModeRGB,
         pixels := (case mode img of
                      ModeL \<Rightarrow> gray_to_rgb (pixels img)
                    | ModeLA \<Rightarrow> la_to_rgb (pixels img)
                    | ModeRGB \<Rightarrow> pixels img
                    | ModeRGBA \<Rightarrow> rgba_to_rgb (pixels img)
                    | ModeF \<Rightarrow> gray_to_rgb (map (\<lambda>v. of_int \<lfloor>np_clip v 0 255\<rfloor>) (pixels img)))\<rparr>"

subsection \<open>Files\<close>

text \<open>
  A histogram drawn by \<open>plt.hist\<close> and written by \<open>plt.savefig\<close>, and the files the
  runner reads and writes. An image file keeps the mode, the size and the samples of the
  image that was saved; the encoding that the file name's extension selects is not
  modelled.
\<close>

record figure =
  hist_values :: "real list"
  bins :: nat
  hist_range :: "real \<times> real"
  title :: string

datatype content =
    ImageFile pil_image
  | NpyFile ndarray
  | FigureFile figure
  | OtherFile

text \<open>
  The file system: the directories that exist, and the files by their path. Paths are
  compared as strings; the current directory, the empty path, always exists.
\<close>

record filesystem =
  dirs :: "string set"
  files :: "string \<rightharpoonup> content"

definition is_sep :: "char \<Rightarrow> bool" where
  "is_sep c = (c = CHR ''/'')"

text \<open>\<open>os.path.join(a, b)\<close> of posixpath.\<close>

definition os_path_join :: "string \<Rightarrow> string \<Rightarrow> string" where
  "os_path_join a b =
     (if b \<noteq> [] \<and> is_sep (hd b) then b
      else if a = [] \<or> is_sep (last a) then a @ b
      else a @ ''/'' @ b)"

text \<open>
  \<open>os.path.dirname(p)\<close> of posixpath: the part up to the last separator, without its
  trailing separators unless it consists of separators only.
\<close>

definition strip_trailing_sep :: "string \<Rightarrow> string" where
  "strip_trailing_sep s = (if list_all is_sep s then s else rev (dropWhile is_sep (rev s)))"

definition os_path_dirname :: "string \<Rightarrow> string" where
  "os_path_dirname p = strip_trailing_sep (rev (dropWhile (\<lambda>c. \<not> is_sep c) (rev p)))"

definition dir_exists :: "filesystem \<Rightarrow> string \<Rightarrow> bool" where
  "dir_exists fs d = (d = [] \<or> d \<in> dirs fs)"

text \<open>
  Creating or replacing a file: \<open>FileNotFoundError\<close> when the directory of the path
  does not exist.
\<close>

definition write_file :: "filesystem \<Rightarrow> string \<Rightarrow> content \<Rightarrow> exn + filesystem" where
  "write_file fs path c =
     (if dir_exists fs (os_path_dirname path)
      then Inr (fs\<lparr>files := (files fs)(path \<mapsto> c)\<rparr>)
      else Inl FileNotFoundError)"

text \<open>
  \<open>os.makedirs(d, exist_ok=True)\<close>: the empty path raises \<open>FileNotFoundError\<close>, a path
  that is a file raises \<open>FileExistsError\<close>, and otherwise the directory exists afterwards.
\<close>

definition os_makedirs :: "filesystem \<Rightarrow> string \<Rightarrow> exn + filesystem" where
  "os_makedirs fs d =
     (if d = [] then Inl FileNotFoundError
      else if files fs (strip_trailing_sep d) \<noteq> None then Inl FileExistsError
      else Inr (fs\<lparr>dirs := insert (strip_trailing_sep d) (dirs fs)\<rparr>))"

text \<open>\<open>load_image\<close> (lines 12 to 15): \<open>Image.open(path).convert("RGB")\<close>.\<close>

definition load_image :: "filesystem \<Rightarrow> string \<Rightarrow> exn + pil_image" where
  "load_image fs path =
     (case files fs path of
        None \<Rightarrow> Inl FileNotFoundError
      | Some (ImageFile img) \<Rightarrow> Inr (convert_RGB img)
      | Some _ \<Rightarrow> Inl UnidentifiedImageError)"

subsection \<open>The runner's \<open>main\<close>\<close>

text \<open>
  The values in the dictionary that \<open>predict\<close> returns, and a loaded model: its
  \<open>predict\<close>, from the dictionary of inputs to the dictionary of outputs, in the order of
  its keys. Loading a package and predicting are library calls, which may raise.
\<close>

datatype pyval =
    is_Image: Image pil_image
  | Array ndarray
  | OtherValue

type_synonym prediction = "(string \<times> pyval) list"

type_synonym predictor = "(string \<times> pil_image) list \<Rightarrow> exn + prediction"

record run_args =
  model :: string
  input :: string
  output_path :: string
  hist_dir :: string

text \<open>
  The lines the runner prints, one constructor for each \<open>print\<close> of the source in
  the order of its lines (51, 67, 70, 80, 90, 93, 95, 101, 115, 116, 125, 138, 160), and
  what a run does to the outside, in the order in which it happens.
\<close>

datatype run_msg =
    ModelLoadFailed exn
  | InferenceTime
  | InferenceFailed exn
  | DebugOutputKeyFound string
  | DebugTypeOfOut string
  | DebugImageMode mode
  | DebugArrayStats dtype "nat list" real real real
  | OutputStats real real dtype "nat list"
  | SavedFloat string
  | FloatStats real real real
  | SavedFloatHistogram string
  | SavedOutput string
  | SavedHistogram string

datatype run_event =
    Printed run_msg
  | Makedirs string
  | Wrote string

record world =
  fs :: filesystem
  events :: "run_event list"

definition printed :: "run_msg list \<Rightarrow> world \<Rightarrow> world" where
  "printed ms w = w\<lparr>events := events w @ map Printed ms\<rparr>"

text \<open>A step that writes a file, and the sequencing of two steps: an exception ends the run.\<close>

definition write_step :: "string \<Rightarrow> content \<Rightarrow> world \<Rightarrow> (exn + unit) \<times> world" where
  "write_step path c w =
     (case write_file (fs w) path c of
        Inl e \<Rightarrow> (Inl e, w)
      | Inr fs' \<Rightarrow> (Inr (), w\<lparr>fs := fs', events := events w @ [Wrote path]\<rparr>))"

definition and_then ::
  "(world \<Rightarrow> (exn + 'a) \<times> world) \<Rightarrow> ('a \<Rightarrow> world \<Rightarrow> (exn + 'b) \<times> world) \<Rightarrow>
   world \<Rightarrow> (exn + 'b) \<times> world" where
  "and_then step rest w =
     (case step w of
        (Inl e, w') \<Rightarrow> (Inl e, w')
      | (Inr a, w') \<Rightarrow> rest a w')"

text \<open>
  Lines 74 to 81:
  \<^verbatim>\<open>
  if "output_image" in result:
      out = result["output_image"]
      out_key = "output_image"
  else:
      out_key = next(iter(result.keys()))
      print(f"DEBUG: Output key found: {out_key}")
      out = result[out_key]
  \<close>
  \<open>next\<close> of an iterator without elements raises \<open>StopIteration\<close>.
\<close>

definition select_output :: "prediction \<Rightarrow> world \<Rightarrow> (exn + pyval \<times> string) \<times> world" where
  "select_output result w =
     (case map_of result ''output_image'' of
        Some out \<Rightarrow> (Inr (out, ''output_image''), w)
      | None \<Rightarrow>
          (case result of
             [] \<Rightarrow> (Inl StopIteration, w)
           | (out_key, out) # rest \<Rightarrow> (Inr (out, out_key), printed [DebugOutputKeyFound out_key] w)))"

text \<open>Lines 89 to 110: the array of the output and the lines about it.\<close>

definition report_output :: "string \<Rightarrow> pil_image \<Rightarrow> world \<Rightarrow> (exn + ndarray) \<times> world" where
  "report_output out_key out w =
     (let w1 = printed [DebugTypeOfOut out_key, DebugImageMode (mode out)] w;
          out_np = np_array out
      in (case np_min (data out_np) of
            Inl e \<Rightarrow> (Inl e, w1)
          | Inr lo \<Rightarrow>
              (case np_max (data out_np) of
                 Inl e \<Rightarrow> (Inl e, w1)
               | Inr hi \<Rightarrow>
                   (Inr out_np,
                    printed [DebugArrayStats (dtype out_np) (np_shape out_np) lo hi
                               (np_mean (data out_np)),
                             OutputStats lo hi (dtype out_np) (np_shape out_np)] w1))))"

text \<open>
  Lines 113 to 127: for a floating point array, the array itself and a histogram over
  [0, 1] are written into the histogram directory.
\<close>

definition save_float ::  "run_args \<Rightarrow> ndarray \<Rightarrow> world \<Rightarrow> (exn + unit) \<times> world" where
  "save_float args out_np w =
     (if is_floating (dtype out_np) then
        and_then (write_step (os_path_join (hist_dir args) ''output_float.npy'') (NpyFile out_np))
          (\<lambda>u w1.
             (case np_min (data out_np) of
                Inl e \<Rightarrow> (Inl e, printed [SavedFloat (os_path_join (hist_dir args) ''output_float.npy'')] w1)
              | Inr lo \<Rightarrow>
                  (case np_max (data out_np) of
                     Inl e \<Rightarrow> (Inl e, printed [SavedFloat (os_path_join (hist_dir args) ''output_float.npy'')] w1)
                   | Inr hi \<Rightarrow>
                       and_then
                         (write_step (os_path_join (hist_dir args) ''hist_output_float.png'')
                            (FigureFile \<lparr>hist_values = data out_np, bins = 100, hist_range = (0, 1),
                                         title = ''Output Float Value Histogram (0-1)''\<rparr>))
                         (\<lambda>u w2. (Inr (), printed [SavedFloatHistogram
                                      (os_path_join (hist_dir args) ''hist_output_float.png'')] w2))
                         (printed [SavedFloat (os_path_join (hist_dir args) ''output_float.npy''),
                                   FloatStats lo hi (np_mean (data out_np))] w1))))
          w
      else (Inr (), w))"

text \<open>Lines 132 to 138: the final image is computed and saved at the output path.\<close>

definition save_output :: "run_args \<Rightarrow> pil_image \<Rightarrow> world \<Rightarrow> (exn + unit) \<times> world" where
  "save_output args out w =
     (case to_uint8 (np_array out) of
        Inl e \<Rightarrow> (Inl e, w)
      | Inr img \<Rightarrow>
          (case fromarray img of
             Inl e \<Rightarrow> (Inl e, w)
           | Inr final \<Rightarrow>
               and_then (write_step (output_path args) (ImageFile final))
                 (\<lambda>u w1. (Inr (), printed [SavedOutput (output_path args)] w1)) w))"

text \<open>
  Lines 141 to 160: the histogram directory is created, then the histogram over
  [0, 255] is written into it.
\<close>

definition save_histogram :: "run_args \<Rightarrow> ndarray \<Rightarrow> world \<Rightarrow> (exn + unit) \<times> world" where
  "save_histogram args out_np w =
     (case os_makedirs (fs w) (hist_dir args) of
        Inl e \<Rightarrow> (Inl e, w)
      | Inr fs1 \<Rightarrow>
          (let w1 = w\<lparr>fs := fs1, events := events w @ [Makedirs (hist_dir args)]\<rparr>;
               hist_path = os_path_join (hist_dir args) ''hist_output.png'';
               flat = data out_np
           in (case (if is_floating (dtype out_np)
                     then (case np_max flat of
                             Inl e \<Rightarrow> Inl e
                           | Inr m \<Rightarrow> Inr (if m \<le> 1 then map (\<lambda>v. v * 255) flat else flat))
                     else Inr flat) of
                 Inl e \<Rightarrow> (Inl e, w1)
               | Inr vals \<Rightarrow>
                   and_then
                     (write_step hist_path
                        (FigureFile \<lparr>hist_values = vals, bins = 256, hist_range = (0, 255),
                                     title = ''Output Image Histogram''\<rparr>))
                     (\<lambda>u w2. (Inr (), printed [SavedHistogram hist_path] w2)) w1)))"

text \<open>
  Lines 73 to 160, what follows a prediction that returned. The \<open>TypeError\<close> of lines 84
  to 87 is raised outside of any \<open>try\<close>.
\<close>

definition after_predict :: "run_args \<Rightarrow> prediction \<Rightarrow> world \<Rightarrow> (exn + unit) \<times> world" where
  "after_predict args result =
     and_then (select_output result)
       (\<lambda>(out, out_key) w.
          (case out of
             Image img \<Rightarrow>
               and_then (report_output out_key img)
                 (\<lambda>out_np.
                    and_then (save_float args out_np)
                      (\<lambda>u. and_then (save_output args img)
                              (\<lambda>u. save_histogram args out_np))) w
           | _ \<Rightarrow> (Inl TypeError, w)))"

text \<open>
  The runner's \<open>main\<close> (lines 37 to 160). The two \<open>try\<close> statements catch with
  \<open>except Exception\<close>, print and return; \<open>load_image\<close> at line 55 is called between
  them, outside of both.
\<close>

definition quick_sr_main ::
  "(string \<Rightarrow> exn + predictor) \<Rightarrow> run_args \<Rightarrow> world \<Rightarrow> (exn + unit) \<times> world" where
  "quick_sr_main MLModel args w =
     (case MLModel (model args) of
        Inl e \<Rightarrow>
          (if is_Exception e then (Inr (), printed [ModelLoadFailed e] w) else (Inl e, w))
      | Inr mlmodel \<Rightarrow>
          (case load_image (fs w) (input args) of
             Inl e \<Rightarrow> (Inl e, w)
           | Inr inp \<Rightarrow>
               (case mlmodel [(''input_image'', inp)] of
                  Inl e \<Rightarrow>
                    (if is_Exception e then (Inr (), printed [InferenceFailed e] w) else (Inl e, w))
                | Inr result \<Rightarrow> after_predict args result (printed [InferenceTime] w))))"

subsection \<open>Sample runs\<close>

text \<open>
  A 1 by 1 colour image, a command line with the default histogram directory
  \<open>output\<close>, a world whose current directory holds that image at \<open>in.png\<close> and has no
  directory \<open>output\<close>, and a world without any file.
\<close>

definition sample_input :: pil_image where
  "sample_input = \<lparr>mode = ModeRGB, width = 1, height = 1, pixels = [10, 20, 30]\<rparr>"

definition sample_args :: run_args where
  "sample_args =
     \<lparr>model = ''sr.mlpackage'', input = ''in.png'', output_path = ''out.png'', hist_dir = ''output''\<rparr>"

definition sample_world :: world where
  "sample_world =
     \<lparr>fs = \<lparr>dirs = {}, files = [''in.png'' \<mapsto> ImageFile sample_input]\<rparr>, events = []\<rparr>"

definition world_without_input :: world where
  "world_without_input = \<lparr>fs = \<lparr>dirs = {}, files = Map.empty\<rparr>, events = []\<rparr>"

text \<open>
  Three model packages, by the value they return under the key \<open>output_image\<close>: a
  floating point image, an 8-bit image that is twice as wide and as high as the sample
  input, and an array that is no image.
\<close>

definition float_model :: "string \<Rightarrow> exn + predictor" where
  "float_model path =
     Inr (\<lambda>inputs. Inr [(''output_image'',
                          Image \<lparr>mode = ModeF, width = 1, height = 1, pixels = [1 / 2]\<rparr>)])"

definition upscaling_model :: "string \<Rightarrow> exn + predictor" where
  "upscaling_model path =
     Inr (\<lambda>inputs. Inr [(''output_image'',
                          Image \<lparr>mode = ModeL, width = 2, height = 2, pixels = [0, 100, 200, 255]\<rparr>)])"

definition array_model :: "string \<Rightarrow> exn + predictor" where
  "array_model path =
     Inr (\<lambda>inputs. Inr [(''output_image'',
                          Array \<lparr>dtype = Float32, np_shape = [1, 1], data = [1 / 2]\<rparr>)])"

section \<open>Properties of the converter\<close>

lemma import_line_23_parses: "import_from import_line_23"
  by (simp add: import_line_23_def import_from_def dotted_name_def import_from_targets_def
      import_from_as_names_def import_from_as_name_def)

lemma import_line_24_parses: "import_from import_line_24"
  by (simp add: import_line_24_def import_from_def dotted_name_def import_from_targets_def
      import_from_as_names_def import_from_as_name_def)

lemma import_lines_26_28_rejected: "\<not> import_from import_lines_26_28"
  by (simp add: import_lines_26_28_def import_from_def dotted_name_def import_from_targets_def
      import_from_as_names_def import_from_as_name_def)

lemma compile_module_fails: "compile_module module_import_froms = Inl SyntaxError"
  by (simp add: compile_module_def module_import_froms_def import_lines_26_28_rejected)

text \<open>
  C1: every run of the converter script ends with a syntax error before anything is
  processed. Whatever the libraries, the arguments and the state of the outside are, the
  script raises \<open>SyntaxError\<close> and leaves the outside as it was: no checkpoint is
  loaded, no package is written, and the line that reports success is never printed.
\<close>

theorem converter_script_always_syntax_error:
  "convert_pth2coreml_new L args w = (Inl SyntaxError, w)"
  by (simp add: convert_pth2coreml_new_def compile_module_fails)

text \<open>
  What \<open>forward\<close> returns: it raises what the base model raises, and otherwise every
  element of its output is the matching element of the base model's output, clamped to
  [0, 1] and multiplied by 255.
\<close>

lemma forward_raises: "base_model x = Inl e \<Longrightarrow> forward base_model x = Inl e"
  by (simp add: forward_def)

lemma forward_returns:
  "base_model x = Inr out \<Longrightarrow>
   forward base_model x =
     Inr (out\<lparr>elems := map (\<lambda>v. mul_elem 255 (clamp_elem 0 1 v)) (elems out)\<rparr>)"
  by (simp add: forward_def tensor_mul_def torch_clamp_def)

lemma clamp_scaled_in_range: "v \<noteq> NaN \<Longrightarrow> in_range 0 255 (mul_elem 255 (clamp_elem 0 1 v))"
  by (cases v) simp_all

lemma clamp_scaled_NaN: "mul_elem 255 (clamp_elem 0 1 NaN) = NaN"
  by simp

lemma forward_in_range_unless_NaN:
  assumes "base_model x = Inr out" and "forward base_model x = Inr y" and "i < length (elems out)"
  shows "elems y ! i = mul_elem 255 (clamp_elem 0 1 (elems out ! i))"
    and "elems out ! i \<noteq> NaN \<Longrightarrow> in_range 0 255 (elems y ! i)"
    and "elems out ! i = NaN \<Longrightarrow> elems y ! i = NaN"
proof -
  have y: "y = out\<lparr>elems := map (\<lambda>v. mul_elem 255 (clamp_elem 0 1 v)) (elems out)\<rparr>"
    using forward_returns [of base_model x out] assms(1,2) by simp
  show px: "elems y ! i = mul_elem 255 (clamp_elem 0 1 (elems out ! i))"
    using assms(3) by (simp add: y)
  show "elems out ! i \<noteq> NaN \<Longrightarrow> in_range 0 255 (elems y ! i)"
    using clamp_scaled_in_range by (simp add: px)
  show "elems out ! i = NaN \<Longrightarrow> elems y ! i = NaN"
    by (simp add: px)
qed

text \<open>
  C2 does not hold for a NaN element. For the input tensor with the elements NaN, 7 and
  -3 and a base model that returns its input, the wrapped model returns NaN, 255 and 0:
  \<open>torch.clamp\<close> leaves the NaN as it is, so does the multiplication, and NaN does not
  lie in [0, 255].
\<close>

theorem forward_keeps_NaN:
  "forward (\<lambda>t. Inr t) \<lparr>dims = [3], elems = [NaN, Finite 7, Finite (- 3)]\<rparr>
     = Inr \<lparr>dims = [3], elems = [NaN, Finite 255, Finite 0]\<rparr>
   \<and> \<not> in_range 0 255 NaN"
  by (simp add: forward_def tensor_mul_def torch_clamp_def)

lemma find_params_missing:
  "ckpt ''params_ema'' = None \<Longrightarrow> ckpt ''params'' = None \<Longrightarrow>
   find_params ckpt [''params_ema'', ''params''] = None"
  by simp

text \<open>
  C4: for every checkpoint that has neither the key \<open>params_ema\<close> nor the key
  \<open>params\<close>, the converter's \<open>main\<close> ends with \<open>sys.exit(1)\<close>: the exit status is 1, the only effects
  are the error message and the traceback on the error stream, so no trace, conversion
  or save was attempted, and no package was written.
\<close>

theorem convert_main_missing_params:
  assumes "torch_load L (pth args) = Inr ckpt"
    and "''params_ema'' \<notin> dom ckpt"
    and "''params'' \<notin> dom ckpt"
  shows "convert_main L args w =
           (Inl (SystemExit 1),
            w\<lparr>conv_events := conv_events w @
                 [PrintStderr (ConversionError RuntimeError), PrintStderr (Traceback RuntimeError)]\<rparr>)
         \<and> exit_status (fst (convert_main L args w)) = 1
         \<and> packages (snd (convert_main L args w)) = packages w"
proof -
  have "find_params ckpt [''params_ema'', ''params''] = None"
    using assms(2,3) by (intro find_params_missing) (simp_all add: domIff)
  then have "load_rrdbnet L (pth args) = Inl RuntimeError"
    by (simp add: load_rrdbnet_def assms(1))
  then have "try_body L args w = (Inl RuntimeError, w)"
    by (simp add: try_body_def)
  then show ?thesis
    by (simp add: convert_main_def emit_def)
qed

theorem convert_main_missing_params_witness:
  "convert_main \<lparr>torch_load = (\<lambda>p. Inr [''model'' \<mapsto> []]), load_state_dict = (\<lambda>sd. Inl RuntimeError),
         ct_ImageType_fails = (\<lambda>t. None), torch_rand = (\<lambda>s. Inl RuntimeError),
         jit_trace_fails = (\<lambda>t. None), ct_convert_fails = (\<lambda>c. None),
         quantize_weights_fails = (\<lambda>m n. None), save_fails = (\<lambda>m p. None)\<rparr>
        \<lparr>pth = ''a.pth'', out_path = ''a.mlpackage'', float16 = False, target = Mac,
         min_dim = 64, max_dim = 2048, trace_size = 64\<rparr>
        \<lparr>packages = Map.empty, conv_events = []\<rparr>
     = (Inl (SystemExit 1),
        \<lparr>packages = Map.empty,
         conv_events = [PrintStderr (ConversionError RuntimeError),
                        PrintStderr (Traceback RuntimeError)]\<rparr>)"
  using convert_main_missing_params
    [of "\<lparr>torch_load = (\<lambda>p. Inr [''model'' \<mapsto> []]), load_state_dict = (\<lambda>sd. Inl RuntimeError),
         ct_ImageType_fails = (\<lambda>t. None), torch_rand = (\<lambda>s. Inl RuntimeError),
         jit_trace_fails = (\<lambda>t. None), ct_convert_fails = (\<lambda>c. None),
         quantize_weights_fails = (\<lambda>m n. None), save_fails = (\<lambda>m p. None)\<rparr>"
        "\<lparr>pth = ''a.pth'', out_path = ''a.mlpackage'', float16 = False, target = Mac,
         min_dim = 64, max_dim = 2048, trace_size = 64\<rparr>"
        "[''model'' \<mapsto> []]"
        "\<lparr>packages = Map.empty, conv_events = []\<rparr>"]
  by simp

lemma input_desc_declares_configured_range:
  "shape (input_desc args) =
     Some [Fixed 1, Fixed 3,
           RangeDim \<lparr>lower_bound = min_dim args, upper_bound = max_dim args\<rparr>,
           RangeDim \<lparr>lower_bound = min_dim args, upper_bound = max_dim args\<rparr>]"
  by (simp add: input_desc_def)

section \<open>Properties of the inference runner\<close>

subsection \<open>Arrays and the conversion to 8 bits\<close>

lemma np_max_Max:
  assumes "xs \<noteq> []"
  shows "np_max xs = Inr (Max (set xs))"
proof (cases xs)
  case Nil
  then show ?thesis using assms by simp
next
  case (Cons x r)
  then show ?thesis
    using Max.set_eq_fold [of x r] by (simp add: np_max_def)
qed

lemma np_clip_bounds: "0 \<le> np_clip v 0 255 \<and> np_clip v 0 255 \<le> 255"
  by (simp add: np_clip_def)

lemma astype_uint8_in_range:
  assumes "0 \<le> v" and "v \<le> 255"
  shows "unat (astype_uint8 v) = nat \<lfloor>v\<rfloor>"
proof -
  have lo: "0 \<le> \<lfloor>v\<rfloor>" using assms(1) by simp
  have "\<lfloor>v\<rfloor> \<le> 255" using assms(2) by (simp add: floor_le_iff)
  then have hi: "\<lfloor>v\<rfloor> < 256" by simp
  have "uint (word_of_int \<lfloor>v\<rfloor> :: 8 word) = \<lfloor>v\<rfloor> mod 256"
    by (simp add: uint_word_of_int)
  also have "\<dots> = \<lfloor>v\<rfloor>" using lo hi by simp
  finally have "uint (word_of_int \<lfloor>v\<rfloor> :: 8 word) = \<lfloor>v\<rfloor>" .
  then have "unat (word_of_int \<lfloor>v\<rfloor> :: 8 word) = nat \<lfloor>v\<rfloor>"
    by (simp add: unat_eq_nat_uint)
  then show ?thesis
    using assms(1) by (simp add: astype_uint8_def)
qed

lemma astype_uint8_clip: "unat (astype_uint8 (np_clip v 0 255)) = nat \<lfloor>np_clip v 0 255\<rfloor>"
  using np_clip_bounds by (intro astype_uint8_in_range) simp_all

lemma to_uint8_data:
  assumes "data img \<noteq> []"
  shows "to_uint8 img =
           Inr \<lparr>u8_shape = np_shape img,
                u8_data = map (\<lambda>v. astype_uint8 (np_clip (if Max (set (data img)) \<le> 1 then v * 255 else v) 0 255))
                            (data img)\<rparr>"
  using assms by (auto simp: to_uint8_def np_max_Max)

lemma to_uint8_empty: "data img = [] \<Longrightarrow> to_uint8 img = Inl ValueError"
  by (simp add: to_uint8_def np_max_def)

subsection \<open>The steps of a run\<close>

lemmas run_defs = quick_sr_main_def after_predict_def and_then_def select_output_def report_output_def
  save_float_def save_output_def save_histogram_def write_step_def write_file_def os_makedirs_def
  printed_def load_image_def convert_RGB_def np_array_def np_min_def np_max_def np_mean_def
  is_floating_def to_uint8_def fromarray_def np_clip_def astype_uint8_def os_path_join_def
  os_path_dirname_def strip_trailing_sep_def dir_exists_def is_sep_def Let_def

lemma and_then_Inr:
  assumes "and_then step rest w = (Inr b, w')"
  obtains a w1 where "step w = (Inr a, w1)" and "rest a w1 = (Inr b, w')"
  using assms by (auto simp: and_then_def split: prod.splits sum.splits)

lemma printed_fs: "fs (printed ms w) = fs w"
  by (simp add: printed_def)

lemma select_output_fst: "fst (select_output result w) = fst (select_output result w0)"
  by (simp add: select_output_def split: option.splits list.splits)

lemma select_output_fs: "fs (snd (select_output result w)) = fs w"
  by (simp add: select_output_def printed_fs split: option.splits list.splits)

lemma quick_sr_main_after_predict:
  assumes "MLModel (model args) = Inr mlmodel"
    and "load_image (fs w) (input args) = Inr inp"
    and "mlmodel [(''input_image'', inp)] = Inr result"
  shows "quick_sr_main MLModel args w = after_predict args result (printed [InferenceTime] w)"
  using assms by (simp add: quick_sr_main_def)

lemma after_predict_non_image:
  assumes "fst (select_output result w) = Inr (out, k)" and "\<not> is_Image out"
  shows "after_predict args result w = (Inl TypeError, snd (select_output result w))"
  using assms by (cases "select_output result w"; cases out) (auto simp: after_predict_def and_then_def)

lemma after_predict_image:
  assumes "fst (select_output result w) = Inr (Image img, k)"
  shows "after_predict args result w =
           and_then (report_output k img)
             (\<lambda>out_np. and_then (save_float args out_np)
                (\<lambda>u. and_then (save_output args img) (\<lambda>u. save_histogram args out_np)))
             (snd (select_output result w))"
  using assms by (cases "select_output result w") (auto simp: after_predict_def and_then_def)

lemma write_step_Inr:
  assumes "write_step p c w = (Inr u, w')"
  shows "fs w' = (fs w)\<lparr>files := (files (fs w))(p \<mapsto> c)\<rparr>"
  using assms by (auto simp: write_step_def write_file_def split: if_splits)

lemma report_output_fs:
  assumes "report_output k img w = (r, w')"
  shows "fs w' = fs w"
  using assms by (auto simp: report_output_def Let_def printed_fs split: sum.splits)

lemma save_output_file:
  assumes "save_output args img w = (Inr u, w1)"
  shows "\<exists>final. files (fs w1) (output_path args) = Some (ImageFile final)
           \<and> mode final \<noteq> ModeF \<and> width final = width img \<and> height final = height img
           \<and> pixels final =
               map (\<lambda>v. real (unat (astype_uint8
                      (np_clip (if Max (set (pixels img)) \<le> 1 then v * 255 else v) 0 255))))
                 (pixels img)"
proof -
  have nonempty: "data (np_array img) \<noteq> []"
    using assms by (auto simp: save_output_def to_uint8_empty)
  note conv = to_uint8_data [OF nonempty]
  obtain final where final: "fromarray
        \<lparr>u8_shape = np_shape (np_array img),
         u8_data = map (\<lambda>v. astype_uint8 (np_clip (if Max (set (data (np_array img))) \<le> 1 then v * 255 else v) 0 255))
                     (data (np_array img))\<rparr> = Inr final"
    and wr: "and_then (write_step (output_path args) (ImageFile final))
                 (\<lambda>u w1. (Inr (), printed [SavedOutput (output_path args)] w1)) w = (Inr u, w1)"
    using assms by (auto simp: save_output_def conv split: sum.splits)
  from wr obtain u' w0 where w0: "write_step (output_path args) (ImageFile final) w = (Inr u', w0)"
    and w1: "w1 = printed [SavedOutput (output_path args)] w0"
    by (auto elim!: and_then_Inr)
  have saved: "files (fs w1) (output_path args) = Some (ImageFile final)"
    using write_step_Inr [OF w0] by (simp add: w1 printed_fs)
  have shape: "mode final \<noteq> ModeF \<and> width final = width img \<and> height final = height img
      \<and> pixels final =
               map (\<lambda>v. real (unat (astype_uint8
                      (np_clip (if Max (set (pixels img)) \<le> 1 then v * 255 else v) 0 255))))
                 (pixels img)"
    using final by (cases "mode img") (auto simp: fromarray_def np_array_def comp_def)
  show ?thesis
    using saved shape by blast
qed






subsection \<open>The final image\<close>

text \<open>
  The final image is not the rounded one. An array with the single value 0.999 has a
  maximum of at most 1: the code stores 254, the integer part of 254.745, where rounding
  gives 255. An array with the values 0.3 and 1.7 has a larger maximum: the code stores
  0 and 1, where rounding gives 0 and 2.
\<close>

theorem to_uint8_not_rounded_counterexample:
  "to_uint8 \<lparr>dtype = Float32, np_shape = [1, 1], data = [999 / 1000]\<rparr>
     = Inr \<lparr>u8_shape = [1, 1], u8_data = [254]\<rparr>
   \<and> spec_to_uint8 \<lparr>dtype = Float32, np_shape = [1, 1], data = [999 / 1000]\<rparr>
     = Inr \<lparr>u8_shape = [1, 1], u8_data = [255]\<rparr>
   \<and> to_uint8 \<lparr>dtype = Float32, np_shape = [1, 2], data = [3 / 10, 17 / 10]\<rparr>
     = Inr \<lparr>u8_shape = [1, 2], u8_data = [0, 1]\<rparr>
   \<and> spec_to_uint8 \<lparr>dtype = Float32, np_shape = [1, 2], data = [3 / 10, 17 / 10]\<rparr>
     = Inr \<lparr>u8_shape = [1, 2], u8_data = [0, 2]\<rparr>"
  by (simp add: to_uint8_def spec_to_uint8_def np_max_def np_clip_def astype_uint8_def
      np_round_def Let_def)

text \<open>
  C3, as the code has it: whenever the runner saves the final image of an output array,
  the saved image holds, element by element, the integer part (the fraction is cut off,
  not rounded) of \<open>clip(arr * 255, 0, 255)\<close> when the maximum of the array is at most 1,
  and the integer part of \<open>clip(arr, 0, 255)\<close> otherwise, each as an 8-bit value.
\<close>

theorem saved_image_is_truncated_clip:
  assumes "save_output args img w = (Inr u, w1)"
  shows "\<exists>final. files (fs w1) (output_path args) = Some (ImageFile final)
           \<and> (Max (set (data (np_array img))) \<le> 1 \<longrightarrow>
                pixels final = map (\<lambda>v. real (nat \<lfloor>np_clip (v * 255) 0 255\<rfloor>)) (data (np_array img)))
           \<and> (\<not> Max (set (data (np_array img))) \<le> 1 \<longrightarrow>
                pixels final = map (\<lambda>v. real (nat \<lfloor>np_clip v 0 255\<rfloor>)) (data (np_array img)))"
proof -
  obtain final where saved: "files (fs w1) (output_path args) = Some (ImageFile final)"
    and px: "pixels final =
               map (\<lambda>v. real (unat (astype_uint8
                      (np_clip (if Max (set (pixels img)) \<le> 1 then v * 255 else v) 0 255))))
                 (pixels img)"
    using save_output_file [OF assms] by blast
  have "data (np_array img) = pixels img"
    by (simp add: np_array_def)
  then show ?thesis
    using saved px by (auto simp: astype_uint8_clip)
qed

theorem saved_image_is_truncated_clip_witness:
  "\<exists>final. files (fs (snd (save_output sample_args
                 \<lparr>mode = ModeF, width = 1, height = 1, pixels = [999 / 1000]\<rparr> world_without_input)))
               ''out.png'' = Some (ImageFile final)
           \<and> pixels final = [254]"
proof -
  have run: "save_output sample_args \<lparr>mode = ModeF, width = 1, height = 1, pixels = [999 / 1000]\<rparr>
               world_without_input
             = (Inr (), snd (save_output sample_args
                  \<lparr>mode = ModeF, width = 1, height = 1, pixels = [999 / 1000]\<rparr> world_without_input))"
    by (simp add: run_defs sample_args_def world_without_input_def)
  show ?thesis
    using saved_image_is_truncated_clip [OF run]
    by (simp add: np_array_def np_clip_def sample_args_def)
qed

subsection \<open>Failures of loading and predicting\<close>

text \<open>
  A failure to load the model package and a failure of the prediction are caught: the
  runner prints a message and returns. A failure to read the input image is raised
  between the two \<open>try\<close> statements and leaves \<open>main\<close> as an exception.
\<close>

lemma model_load_failure_is_caught:
  assumes "MLModel (model args) = Inl e" and "is_Exception e"
  shows "quick_sr_main MLModel args w = (Inr (), printed [ModelLoadFailed e] w)"
  using assms by (simp add: quick_sr_main_def)

lemma prediction_failure_is_caught:
  assumes "MLModel (model args) = Inr mlmodel"
    and "load_image (fs w) (input args) = Inr inp"
    and "mlmodel [(''input_image'', inp)] = Inl e" and "is_Exception e"
  shows "quick_sr_main MLModel args w = (Inr (), printed [InferenceFailed e] w)"
  using assms by (simp add: quick_sr_main_def)

lemma input_failure_propagates:
  assumes "MLModel (model args) = Inr mlmodel"
    and "load_image (fs w) (input args) = Inl e"
  shows "quick_sr_main MLModel args w = (Inl e, w)"
  using assms by (simp add: quick_sr_main_def)

text \<open>
  C5 does not hold for the input image: with a model package that loads and no file at
  the input path, the run ends with an uncaught \<open>FileNotFoundError\<close> and exit status 1;
  nothing is printed by the runner.
\<close>

theorem unreadable_input_is_not_caught:
  "quick_sr_main upscaling_model sample_args world_without_input
     = (Inl FileNotFoundError, world_without_input)
   \<and> exit_status (fst (quick_sr_main upscaling_model sample_args world_without_input)) = 1"
  by (simp add: quick_sr_main_def upscaling_model_def sample_args_def world_without_input_def
      load_image_def)

subsection \<open>The output key\<close>

text \<open>
  C6: for every prediction result that lacks the key \<open>output_image\<close> and has at least
  one key, the runner selects the first key and its value, prints the line that reports
  the key it found, and raises nothing.
\<close>

theorem select_output_falls_back_to_first_key:
  assumes "''output_image'' \<notin> fst ` set result" and "result \<noteq> []"
  shows "select_output result w =
           (Inr (snd (hd result), fst (hd result)),
            printed [DebugOutputKeyFound (fst (hd result))] w)"
proof -
  have "map_of result ''output_image'' = None"
    using assms(1) by (simp add: map_of_eq_None_iff)
  then show ?thesis
    using assms(2) by (cases result) (auto simp: select_output_def)
qed

theorem select_output_falls_back_to_first_key_witness:
  "select_output [(''var_1'', OtherValue), (''var_2'', OtherValue)] world_without_input =
     (Inr (OtherValue, ''var_1''),
      world_without_input\<lparr>events := [Printed (DebugOutputKeyFound ''var_1'')]\<rparr>)"
  using select_output_falls_back_to_first_key
          [of "[(''var_1'', OtherValue), (''var_2'', OtherValue)]" world_without_input]
  by (simp add: printed_def world_without_input_def)

subsection \<open>The histogram directory\<close>

text \<open>
  C8 does not hold for a floating point output: when the histogram directory does not
  exist, the run ends with \<open>FileNotFoundError\<close> at the first write into it (line 114),
  before \<open>os.makedirs\<close> (line 141) is reached. No directory was created, no file was
  written, and the output image was not saved.
\<close>

theorem float_output_written_before_makedirs:
  "quick_sr_main float_model sample_args sample_world =
   (Inl FileNotFoundError,
    sample_world\<lparr>events :=
      [Printed InferenceTime, Printed (DebugTypeOfOut ''output_image''),
       Printed (DebugImageMode ModeF),
       Printed (DebugArrayStats Float32 [1, 1] (1 / 2) (1 / 2) (1 / 2)),
       Printed (OutputStats (1 / 2) (1 / 2) Float32 [1, 1])]\<rparr>)"
  by (simp add: run_defs float_model_def sample_args_def sample_world_def sample_input_def)

text \<open>
  With an 8-bit output the same run succeeds: the directory is created before the
  histogram is written into it.
\<close>

lemma eight_bit_output_makedirs_before_histogram:
  "events (snd (quick_sr_main upscaling_model sample_args sample_world)) =
      [Printed InferenceTime, Printed (DebugTypeOfOut ''output_image''),
       Printed (DebugImageMode ModeL),
       Printed (DebugArrayStats UInt8 [2, 2] 0 255 (555 / 4)),
       Printed (OutputStats 0 255 UInt8 [2, 2]),
       Wrote ''out.png'', Printed (SavedOutput ''out.png''), Makedirs ''output'',
       Wrote ''output/hist_output.png'', Printed (SavedHistogram ''output/hist_output.png'')]"
  by (simp add: run_defs upscaling_model_def sample_args_def sample_world_def sample_input_def)

subsection \<open>Reloading the saved image\<close>




subsection \<open>The type of the output\<close>

text \<open>
  C10: for every prediction result whose selected output value is not an image, \<open>main\<close>
  ends with a \<open>TypeError\<close> that nobody catches, so the exit status is 1, instead of
  printing a message and returning; nothing has been written.
\<close>

theorem non_image_output_raises_TypeError:
  assumes "MLModel (model args) = Inr mlmodel"
    and "load_image (fs w) (input args) = Inr inp"
    and "mlmodel [(''input_image'', inp)] = Inr result"
    and "fst (select_output result w) = Inr (out, out_key)"
    and "\<not> is_Image out"
  shows "fst (quick_sr_main MLModel args w) = Inl TypeError
         \<and> exit_status (fst (quick_sr_main MLModel args w)) = 1
         \<and> fs (snd (quick_sr_main MLModel args w)) = fs w"
proof -
  let ?w0 = "printed [InferenceTime] w"
  have sel: "fst (select_output result ?w0) = Inr (out, out_key)"
    using assms(4) select_output_fst [of result ?w0 w] by simp
  have "quick_sr_main MLModel args w = (Inl TypeError, snd (select_output result ?w0))"
    using quick_sr_main_after_predict [of MLModel args mlmodel w inp result] assms(1-3)
      after_predict_non_image [OF sel assms(5)]
    by simp
  then show ?thesis
    by (simp add: select_output_fs printed_fs)
qed

theorem non_image_output_raises_TypeError_witness:
  "quick_sr_main array_model sample_args sample_world
     = (Inl TypeError, sample_world\<lparr>events := [Printed InferenceTime]\<rparr>)"
proof -
  let ?m = "\<lambda>inputs :: (string \<times> pil_image) list.
              Inr [(''output_image'', Array \<lparr>dtype = Float32, np_shape = [1, 1], data = [1 / 2]\<rparr>)]
              :: exn + prediction"
  have h1: "array_model (model sample_args) = Inr ?m"
    by (simp add: array_model_def)
  have h2: "load_image (fs sample_world) (input sample_args) = Inr sample_input"
    by (simp add: load_image_def convert_RGB_def sample_world_def sample_args_def sample_input_def)
  have h3: "?m [(''input_image'', sample_input)] =
              Inr [(''output_image'', Array \<lparr>dtype = Float32, np_shape = [1, 1], data = [1 / 2]\<rparr>)]"
    by simp
  have h4: "fst (select_output
                   [(''output_image'', Array \<lparr>dtype = Float32, np_shape = [1, 1], data = [1 / 2]\<rparr>)]
                   sample_world)
            = Inr (Array \<lparr>dtype = Float32, np_shape = [1, 1], data = [1 / 2]\<rparr>, ''output_image'')"
    by (simp add: select_output_def)
  have h5: "\<not> is_Image (Array \<lparr>dtype = Float32, np_shape = [1, 1], data = [1 / 2]\<rparr>)"
    by simp
  have ev: "quick_sr_main array_model sample_args sample_world
     = (fst (quick_sr_main array_model sample_args sample_world),
        sample_world\<lparr>events := [Printed InferenceTime]\<rparr>)"
    by (simp add: run_defs array_model_def sample_args_def sample_world_def sample_input_def)
  show ?thesis
    using non_image_output_raises_TypeError
            [of array_model sample_args ?m sample_world sample_input _ _ "''output_image''",
             OF h1 h2 h3 h4 h5] ev
    by simp
qed

end
